theory Spec2Isabelle
  imports Complex_Main
begin

section \<open>Numbers and built-ins\<close>

text \<open>
  The services compute with JavaScript numbers. They are modelled as rationals: the
  branch structure, the order of the adjustments, the rounding and the clamping are those
  of the source, and the arithmetic is exact. An optional parameter or a field that may
  be \<^verbatim>\<open>undefined\<close> is an \<open>option\<close>.
\<close>

definition Math_round :: "rat \<Rightarrow> rat" where
  \<comment> \<open>\<^verbatim>\<open>Math.round\<close>: the nearest integer, a tie going up.\<close>
  "Math_round x = of_int \<lfloor>x + 1 / 2\<rfloor>"

definition Math_floor :: "rat \<Rightarrow> rat" where
  "Math_floor x = of_int \<lfloor>x\<rfloor>"

definition truthy :: "rat option \<Rightarrow> bool" where
  \<comment> \<open>the test \<^verbatim>\<open>if (x)\<close> on an optional number: \<^verbatim>\<open>undefined\<close> and \<^verbatim>\<open>0\<close> are falsy\<close>
  "truthy x = (case x of None \<Rightarrow> False | Some v \<Rightarrow> v \<noteq> 0)"

definition or_else :: "rat option \<Rightarrow> rat option \<Rightarrow> rat option" where
  \<comment> \<open>\<^verbatim>\<open>a || b\<close> on optional numbers\<close>
  "or_else a b = (if truthy a then a else b)"

definition lower_char :: "char \<Rightarrow> char" where
  "lower_char c =
     (if of_char c \<ge> (65::nat) \<and> of_char c \<le> (90::nat) then char_of (of_char c + (32::nat)) else c)"

definition toLowerCase :: "string \<Rightarrow> string" where
  \<comment> \<open>\<^verbatim>\<open>String.prototype.toLowerCase\<close> on the ASCII letters\<close>
  "toLowerCase s = map lower_char s"

fun digits10 :: "nat \<Rightarrow> string" where
  \<comment> \<open>the decimal text of a natural number, as a template string prints it\<close>
  "digits10 n =
     (if n < 10 then [char_of (48 + n)] else digits10 (n div 10) @ [char_of (48 + n mod 10)])"

declare digits10.simps [simp del]

section \<open>Data model of the discount recommendation service\<close>

record UserTrainingData =
  productName :: string
  category :: string
  purchaseDate :: rat  \<comment> \<open>\<^verbatim>\<open>new Date(purchaseDate).getTime()\<close>, in milliseconds\<close>
  expiryDate :: rat  \<comment> \<open>\<^verbatim>\<open>new Date(expiryDate).getTime()\<close>, in milliseconds\<close>
  initialStock :: rat
  finalStock :: rat
  wasteAmount :: rat
  temperature :: rat
  humidity :: rat
  promotionActive :: bool
  location :: string

datatype riskLevel = Low | Medium | High | Critical

datatype status = Pending | Approved | Rejected | Applied

text \<open>
  The reasoning lines are template strings; each constructor stands for one template and
  carries the values the template prints.
\<close>

datatype reason =
    BasedOnDataPoints nat string
  | HistoricalWasteRate rat
  | HighWasteRisk rat
  | ModerateWasteRisk rat
  | Urgent rat
  | TimeSensitive rat
  | HighInventory rat

record DiscountRecommendation =
  rec_id :: string
  rec_productName :: string
  rec_category :: string
  currentStock :: rat
  hoursUntilExpiry :: rat
  predictedWasteAmount :: rat
  predictedWastePercentage :: rat
  suggestedDiscountPercentage :: rat
  estimatedRevenueSaved :: rat
  confidence :: rat
  riskLevel :: riskLevel
  reasoning :: "reason list"
  rec_location :: string
  currentPrice :: rat
  discountedPrice :: rat
  status :: status
  rec_timestamp :: nat
  basedOnDataPoints :: nat
  historicalWasteRate :: rat

datatype decision_kind = DecisionApproved | DecisionRejected

record DiscountDecision =
  recommendationId :: string
  decision :: decision_kind
  actualDiscountApplied :: "rat option"
  ownerNotes :: "string option"
  dec_timestamp :: nat

datatype modelData = ModelData (totalRecords: nat) (categoryCount: nat)

text \<open>
  The fields of the singleton. \<open>trainedModelData\<close> is the marker object handed over by
  the page (\<open>None\<close> is \<^verbatim>\<open>null\<close>); the service only tests its presence.
\<close>

record DiscountRecommendationService =
  recommendations :: "DiscountRecommendation list"
  decisions :: "DiscountDecision list"
  trainedModelData :: "modelData option"
  userTrainingData :: "UserTrainingData list"

definition initialService :: DiscountRecommendationService where
  "initialService =
     \<lparr>recommendations = [], decisions = [], trainedModelData = None, userTrainingData = []\<rparr>"

definition setTrainedModelData ::
  "modelData option \<Rightarrow> UserTrainingData list \<Rightarrow> DiscountRecommendationService
     \<Rightarrow> DiscountRecommendationService" where
  "setTrainedModelData md rawTrainingData s =
     s\<lparr>trainedModelData := md, userTrainingData := rawTrainingData\<rparr>"

section \<open>Historical waste pattern\<close>

record environmentalFactors =
  avgTemp :: "rat option"
  avgHumidity :: "rat option"

record historicalPattern =
  wasteRate :: rat
  dataPoints :: nat
  avgDaysToWaste :: rat
  environmentalFactors :: environmentalFactors

definition reduce_sum :: "('a \<Rightarrow> rat) \<Rightarrow> 'a list \<Rightarrow> rat" where
  \<comment> \<open>\<^verbatim>\<open>xs.reduce((sum, d) => sum + f(d), 0)\<close>\<close>
  "reduce_sum f xs = foldl (\<lambda>sum d. sum + f d) 0 xs"

definition patternOf :: "UserTrainingData list \<Rightarrow> historicalPattern" where
  \<comment> \<open>the body of \<open>analyzeHistoricalWastePattern\<close> once \<open>relevantData\<close> is chosen\<close>
  "patternOf relevantData =
     (if length relevantData = 0 then
        \<lparr>wasteRate = 0, dataPoints = 0, avgDaysToWaste = 0,
         environmentalFactors = \<lparr>avgTemp = None, avgHumidity = None\<rparr>\<rparr>
      else
        let totalInitialStock = reduce_sum initialStock relevantData;
            totalWaste = reduce_sum wasteAmount relevantData;
            rate = (if totalInitialStock > 0 then (totalWaste / totalInitialStock) * 100 else 0);
            avgDays =
              reduce_sum (\<lambda>d. (expiryDate d - purchaseDate d) / (1000 * 60 * 60 * 24)) relevantData
                / of_nat (length relevantData);
            avgT = reduce_sum temperature relevantData / of_nat (length relevantData);
            avgH = reduce_sum humidity relevantData / of_nat (length relevantData)
        in \<lparr>wasteRate = rate, dataPoints = length relevantData, avgDaysToWaste = avgDays,
            environmentalFactors = \<lparr>avgTemp = Some avgT, avgHumidity = Some avgH\<rparr>\<rparr>)"

definition relevantData :: "UserTrainingData list \<Rightarrow> string \<Rightarrow> string \<Rightarrow> UserTrainingData list" where
  \<comment> \<open>the matched subset: the exact name matches, or else the category matches\<close>
  "relevantData trainingData pName cat =
     (let exactMatches =
            filter (\<lambda>d. toLowerCase (productName d) = toLowerCase pName) trainingData;
          categoryMatches =
            filter (\<lambda>d. toLowerCase (category d) = toLowerCase cat) trainingData
      in if length exactMatches > 0 then exactMatches else categoryMatches)"

definition analyzeHistoricalWastePattern ::
  "UserTrainingData list \<Rightarrow> string \<Rightarrow> string \<Rightarrow> historicalPattern" where
  "analyzeHistoricalWastePattern trainingData pName cat =
     patternOf (relevantData trainingData pName cat)"

text \<open>The same rate in the training service, over its own \<open>trainingData\<close>.\<close>

definition getProductData :: "UserTrainingData list \<Rightarrow> string \<Rightarrow> UserTrainingData list" where
  "getProductData trainingData pName =
     filter (\<lambda>d. toLowerCase (productName d) = toLowerCase pName) trainingData"

definition getCategoryData :: "UserTrainingData list \<Rightarrow> string \<Rightarrow> UserTrainingData list" where
  "getCategoryData trainingData cat =
     filter (\<lambda>d. toLowerCase (category d) = toLowerCase cat) trainingData"

definition given :: "string option \<Rightarrow> bool" where
  \<comment> \<open>the test \<^verbatim>\<open>if (s)\<close> on an optional string: \<^verbatim>\<open>undefined\<close> and the empty string are falsy\<close>
  "given s = (case s of None \<Rightarrow> False | Some t \<Rightarrow> t \<noteq> [])"

definition calculateWasteRate ::
  "UserTrainingData list \<Rightarrow> string option \<Rightarrow> string option \<Rightarrow> rat" where
  "calculateWasteRate trainingData pName cat =
     (let matched =
            (if given pName then getProductData trainingData (case pName of Some n \<Rightarrow> n | None \<Rightarrow> [])
             else if given cat then getCategoryData trainingData (case cat of Some c \<Rightarrow> c | None \<Rightarrow> [])
             else trainingData)
      in if length matched = 0 then 0
         else
           let totalInitialStock = reduce_sum initialStock matched;
               totalWaste = reduce_sum wasteAmount matched
           in if totalInitialStock > 0 then (totalWaste / totalInitialStock) * 100 else 0)"

section \<open>Waste prediction and discount selection\<close>

record currentConditions =
  cond_temperature :: rat
  cond_humidity :: rat

record prediction =
  pred_wasteAmount :: rat
  pred_wastePercentage :: rat
  pred_confidence :: rat

definition exceeds :: "rat \<Rightarrow> rat option \<Rightarrow> rat \<Rightarrow> bool" where
  \<comment> \<open>\<^verbatim>\<open>x > avg + k\<close>; false when the average is \<^verbatim>\<open>undefined\<close>\<close>
  "exceeds x avg k = (case avg of None \<Rightarrow> False | Some a \<Rightarrow> x > a + k)"

definition calculatePredictedWaste ::
  "rat \<Rightarrow> rat \<Rightarrow> historicalPattern \<Rightarrow> currentConditions \<Rightarrow> prediction" where
  "calculatePredictedWaste stock hours hp cc =
     (let baseWasteRate = wasteRate hp;
          daysUntilExpiry = hours / 24;
          baseWasteRate =
            (if daysUntilExpiry \<le> 1 then baseWasteRate * 2.0
             else if daysUntilExpiry \<le> 2 then baseWasteRate * 1.5
             else if daysUntilExpiry \<le> 3 then baseWasteRate * 1.2
             else baseWasteRate);
          baseWasteRate =
            (if exceeds (cond_temperature cc) (avgTemp (environmentalFactors hp)) 5
             then baseWasteRate * 1.3 else baseWasteRate);
          baseWasteRate =
            (if exceeds (cond_humidity cc) (avgHumidity (environmentalFactors hp)) 10
             then baseWasteRate * 1.2 else baseWasteRate);
          baseWasteRate =
            (if stock > 50 then baseWasteRate * 1.1
             else if stock > 100 then baseWasteRate * 1.2
             else baseWasteRate);
          finalWastePercentage = min 100 (max 0 baseWasteRate);
          wasteAmt = Math_round ((finalWastePercentage / 100) * stock);
          conf = 50;
          conf = conf + min 30 (of_nat (dataPoints hp) * 5);
          conf = conf + (if hours \<le> 24 then 15 else 0);
          conf = min 95 conf
      in \<lparr>pred_wasteAmount = wasteAmt,
          pred_wastePercentage = Math_round (finalWastePercentage * 10) / 10,
          pred_confidence = Math_round conf\<rparr>)"

definition calculateOptimalDiscount :: "rat \<Rightarrow> rat \<Rightarrow> historicalPattern \<Rightarrow> rat" where
  "calculateOptimalDiscount wastePercentage hours hp =
     (let baseDiscount =
            (if wastePercentage \<ge> 60 then 50
             else if wastePercentage \<ge> 40 then 35
             else if wastePercentage \<ge> 25 then 25
             else if wastePercentage \<ge> 15 then 15
             else 10);
          baseDiscount =
            (if hours \<le> 6 then baseDiscount * 1.4
             else if hours \<le> 12 then baseDiscount * 1.2
             else if hours \<le> 24 then baseDiscount * 1.1
             else baseDiscount);
          baseDiscount =
            (if dataPoints hp \<ge> 5 then baseDiscount * 1.1 else baseDiscount)
      in min 70 (max 5 (Math_round baseDiscount)))"

definition getRiskLevel :: "rat \<Rightarrow> riskLevel" where
  "getRiskLevel wastePercentage =
     (if wastePercentage \<ge> 50 then Critical
      else if wastePercentage \<ge> 30 then High
      else if wastePercentage \<ge> 15 then Medium
      else Low)"

section \<open>Generating recommendations\<close>

text \<open>
  The generator reads the clock and \<^verbatim>\<open>Math.random\<close>. The model takes them as inputs:
  \<open>now\<close> is the value of \<^verbatim>\<open>Date.now()\<close>, and every product gets one bundle of draws, each
  number being a value of \<^verbatim>\<open>Math.random()\<close> in \<open>[0, 1)\<close>, and \<open>u_id\<close> the text
  \<^verbatim>\<open>Math.random().toString(36).substr(2, 9)\<close>.
\<close>

record draws =
  u_stock :: rat
  u_hours :: rat
  u_price :: rat
  u_temp :: rat
  u_humidity :: rat
  u_id :: string

definition generateReasoning :: "DiscountRecommendation \<Rightarrow> historicalPattern \<Rightarrow> reason list" where
  "generateReasoning r hp =
     (if dataPoints hp > 0
      then [BasedOnDataPoints (dataPoints hp) (rec_category r), HistoricalWasteRate (wasteRate hp)]
      else [])
     @ (if predictedWastePercentage r \<ge> 40 then [HighWasteRisk (predictedWastePercentage r)]
        else if predictedWastePercentage r \<ge> 20 then [ModerateWasteRisk (predictedWastePercentage r)]
        else [])
     @ (if hoursUntilExpiry r \<le> 12 then [Urgent (hoursUntilExpiry r)]
        else if hoursUntilExpiry r \<le> 24 then [TimeSensitive (hoursUntilExpiry r)]
        else [])
     @ (if currentStock r > 30 then [HighInventory (currentStock r)] else [])"

definition uniqueProducts :: "UserTrainingData list \<Rightarrow> string list" where
  \<comment> \<open>\<^verbatim>\<open>[...new Set(data.map(d => d.productName))]\<close>: first occurrences, in order\<close>
  "uniqueProducts trainingData =
     foldl (\<lambda>seen n. if n \<in> set seen then seen else seen @ [n]) [] (map productName trainingData)"

definition recommendationFor ::
  "UserTrainingData list \<Rightarrow> nat \<Rightarrow> draws \<Rightarrow> string \<Rightarrow> DiscountRecommendation option" where
  \<comment> \<open>the body of the \<^verbatim>\<open>forEach\<close> callback: the recommendation pushed for one product, if any\<close>
  "recommendationFor trainingData now u pName =
     (case find (\<lambda>d. productName d = pName) trainingData of
        None \<Rightarrow> None
      | Some productData \<Rightarrow>
          let stock = Math_floor (u_stock u * 80) + 20;
              hours = Math_floor (u_hours u * 72) + 6;
              price = Math_round ((u_price u * 15 + 2) * 100) / 100;
              hp = analyzeHistoricalWastePattern trainingData pName (category productData)
          in if dataPoints hp > 0 \<and> wasteRate hp > 5 then
               let cc = \<lparr>cond_temperature = temperature productData + (u_temp u * 10 - 5),
                         cond_humidity = humidity productData + (u_humidity u * 20 - 10)\<rparr>;
                   p = calculatePredictedWaste stock hours hp cc
               in if pred_wastePercentage p > 10 \<or> hours \<le> 24 then
                    let suggestedDiscount =
                          calculateOptimalDiscount (pred_wastePercentage p) hours hp;
                        dPrice = price * (1 - suggestedDiscount / 100);
                        saved = pred_wasteAmount p * dPrice;
                        r = \<lparr>rec_id = ''rec_'' @ digits10 now @ ''_'' @ u_id u,
                             rec_productName = pName,
                             rec_category = category productData,
                             currentStock = stock,
                             hoursUntilExpiry = hours,
                             predictedWasteAmount = pred_wasteAmount p,
                             predictedWastePercentage = pred_wastePercentage p,
                             suggestedDiscountPercentage = suggestedDiscount,
                             estimatedRevenueSaved = Math_round (saved * 100) / 100,
                             confidence = pred_confidence p,
                             riskLevel = getRiskLevel (pred_wastePercentage p),
                             reasoning = [],
                             rec_location =
                               (if location productData \<noteq> [] then location productData
                                else category productData @ '' Section''),
                             currentPrice = price,
                             discountedPrice = Math_round (dPrice * 100) / 100,
                             status = Pending,
                             rec_timestamp = now,
                             basedOnDataPoints = dataPoints hp,
                             historicalWasteRate = Math_round (wasteRate hp * 10) / 10\<rparr>
                    in Some (r\<lparr>reasoning := generateReasoning r hp\<rparr>)
                  else None
             else None)"

fun forEachProduct ::
  "UserTrainingData list \<Rightarrow> nat \<Rightarrow> (nat \<Rightarrow> draws) \<Rightarrow> nat \<Rightarrow> string list
     \<Rightarrow> DiscountRecommendation list" where
  "forEachProduct trainingData now rnd i [] = []"
| "forEachProduct trainingData now rnd i (pName # rest) =
     (case recommendationFor trainingData now (rnd i) pName of
        None \<Rightarrow> forEachProduct trainingData now rnd (Suc i) rest
      | Some r \<Rightarrow> r # forEachProduct trainingData now rnd (Suc i) rest)"

definition urgency :: "DiscountRecommendation \<Rightarrow> rat" where
  "urgency r = (predictedWastePercentage r / 100) * (72 - hoursUntilExpiry r) / 72"

datatype error = Error string

definition generateRecommendationsFromTrainingData ::
  "nat \<Rightarrow> (nat \<Rightarrow> draws) \<Rightarrow> DiscountRecommendationService
     \<Rightarrow> (error + DiscountRecommendation list) \<times> DiscountRecommendationService" where
  \<comment> \<open>the result is the thrown error or the returned batch, with the service after the
      call; the sort is the stable sort by descending urgency\<close>
  "generateRecommendationsFromTrainingData now rnd s =
     (if trainedModelData s = None \<or> length (userTrainingData s) = 0 then
        (Inl (Error ''No trained model data available. Please train the model first.''), s)
      else
        let newRecommendations =
              forEachProduct (userTrainingData s) now rnd 0 (uniqueProducts (userTrainingData s));
            newRecommendations = sort_key (\<lambda>r. - urgency r) newRecommendations;
            s = s\<lparr>recommendations := filter (\<lambda>r. status r \<noteq> Pending) (recommendations s)\<rparr>;
            s = s\<lparr>recommendations := recommendations s @ newRecommendations\<rparr>
        in (Inr newRecommendations, s))"

section \<open>The decision workflow\<close>

fun modifyFirst :: "('a \<Rightarrow> bool) \<Rightarrow> ('a \<Rightarrow> 'a) \<Rightarrow> 'a list \<Rightarrow> 'a list" where
  \<comment> \<open>the object that \<^verbatim>\<open>find\<close> returns is mutated in place: the first match changes\<close>
  "modifyFirst P f [] = []"
| "modifyFirst P f (x # xs) = (if P x then f x # xs else x # modifyFirst P f xs)"

definition approveUpdate :: "rat option \<Rightarrow> DiscountRecommendation \<Rightarrow> DiscountRecommendation" where
  "approveUpdate actualDiscount r =
     (let r = r\<lparr>status := Approved\<rparr>
      in case actualDiscount of
           None \<Rightarrow> r
         | Some d \<Rightarrow>
             if d \<noteq> 0 then
               (let r = r\<lparr>suggestedDiscountPercentage := d\<rparr>;
                    r = r\<lparr>discountedPrice := currentPrice r * (1 - d / 100)\<rparr>
                in r\<lparr>estimatedRevenueSaved := predictedWasteAmount r * discountedPrice r\<rparr>)
             else r)"

definition approveRecommendation ::
  "string \<Rightarrow> rat option \<Rightarrow> string option \<Rightarrow> nat \<Rightarrow> DiscountRecommendationService
     \<Rightarrow> DiscountRecommendationService" where
  "approveRecommendation rid actualDiscount notes now s =
     (let recs = modifyFirst (\<lambda>r. rec_id r = rid) (approveUpdate actualDiscount) (recommendations s);
          recommendation = find (\<lambda>r. rec_id r = rid) recs;
          d = \<lparr>recommendationId = rid,
               decision = DecisionApproved,
               actualDiscountApplied =
                 or_else actualDiscount (map_option suggestedDiscountPercentage recommendation),
               ownerNotes = notes,
               dec_timestamp = now\<rparr>
      in s\<lparr>recommendations := recs, decisions := decisions s @ [d]\<rparr>)"

definition rejectRecommendation ::
  "string \<Rightarrow> string option \<Rightarrow> nat \<Rightarrow> DiscountRecommendationService
     \<Rightarrow> DiscountRecommendationService" where
  "rejectRecommendation rid notes now s =
     (let recs = modifyFirst (\<lambda>r. rec_id r = rid) (\<lambda>r. r\<lparr>status := Rejected\<rparr>) (recommendations s);
          d = \<lparr>recommendationId = rid,
               decision = DecisionRejected,
               actualDiscountApplied = None,
               ownerNotes = notes,
               dec_timestamp = now\<rparr>
      in s\<lparr>recommendations := recs, decisions := decisions s @ [d]\<rparr>)"

definition getPendingRecommendations ::
  "DiscountRecommendationService \<Rightarrow> DiscountRecommendation list" where
  "getPendingRecommendations s = filter (\<lambda>r. status r = Pending) (recommendations s)"

definition clearRecommendations :: "DiscountRecommendationService \<Rightarrow> DiscountRecommendationService" where
  "clearRecommendations s = s\<lparr>recommendations := [], decisions := []\<rparr>"

text \<open>A decision call, and a run of decision calls in order.\<close>

datatype call =
    Approve string "rat option" "string option" nat
  | Reject string "string option" nat

fun call_id :: "call \<Rightarrow> string" where
  "call_id (Approve rid d n t) = rid"
| "call_id (Reject rid n t) = rid"

fun perform :: "call \<Rightarrow> DiscountRecommendationService \<Rightarrow> DiscountRecommendationService" where
  "perform (Approve rid d n t) s = approveRecommendation rid d n t s"
| "perform (Reject rid n t) s = rejectRecommendation rid n t s"

fun performAll :: "call list \<Rightarrow> DiscountRecommendationService \<Rightarrow> DiscountRecommendationService" where
  "performAll [] s = s"
| "performAll (c # cs) s = performAll cs (perform c s)"

section \<open>Intent classification of the chatbot\<close>

fun str_includes :: "string \<Rightarrow> string \<Rightarrow> bool" where
  \<comment> \<open>\<^verbatim>\<open>s.includes(k)\<close>: \<open>k\<close> occurs in \<open>s\<close> as a substring\<close>
  "str_includes [] k = (k = [])"
| "str_includes (c # cs) k = (take (length k) (c # cs) = k \<or> str_includes cs k)"

definition intents :: "(string \<times> string list) list" where
  \<comment> \<open>the entries of the object literal \<^verbatim>\<open>intents\<close>, in the order \<^verbatim>\<open>Object.entries\<close> yields them\<close>
  "intents =
     [(''search_product'',
         [''looking for'', ''need'', ''want'', ''find'', ''search'', ''show me'', ''get me'',
          ''where can i find'', ''do you have'', ''i'' @ [CHR 39] @ ''m looking'', ''help me find'']),
      (''price_inquiry'',
         [''cheap'', ''expensive'', ''budget'', ''affordable'', ''cost'', ''price'', ''money'',
          ''under'', ''less than'', ''maximum'', ''minimum'', ''range'', ''how much'']),
      (''deal_inquiry'',
         [''deal'', ''deals'', ''discount'', ''sale'', ''offer'', ''promotion'', ''bargain'',
          ''special'', ''clearance'', ''markdown'', ''reduced'', ''savings'', ''coupon'']),
      (''recommendation'',
         [''recommend'', ''suggest'', ''advice'', ''help'', ''what should'', ''best'',
          ''popular'', ''trending'', ''top rated'', ''favorite'', ''good choice'']),
      (''comparison'',
         [''compare'', ''difference'', ''better'', ''versus'', ''vs'', ''which one'',
          ''pros and cons'', ''similar'', ''alternative'', ''option'']),
      (''greeting'',
         [''hi'', ''hello'', ''hey'', ''good morning'', ''good afternoon'', ''good evening'',
          ''howdy'', ''greetings'', ''what'' @ [CHR 39] @ ''s up'']),
      (''waste_reduction'',
         [''eco'', ''environment'', ''waste'', ''sustainable'', ''green'', ''expiring'',
          ''organic'', ''natural'', ''recyclable'', ''biodegradable'', ''earth friendly'']),
      (''complaint'',
         [''problem'', ''issue'', ''wrong'', ''broken'', ''defective'', ''complaint'',
          ''disappointed'', ''unsatisfied'', ''return'', ''refund'']),
      (''compliment'',
         [''great'', ''awesome'', ''excellent'', ''perfect'', ''amazing'', ''wonderful'',
          ''fantastic'', ''love'', ''thank you'', ''thanks'', ''helpful''])]"

fun detectIntent :: "(string \<times> string list) list \<Rightarrow> string \<Rightarrow> string list \<Rightarrow> string \<times> rat" where
  \<comment> \<open>the loop over the intent table, with its \<^verbatim>\<open>break\<close>; the result is
      \<open>(detectedIntent, confidence)\<close>, which start as \<open>general\<close> and \<open>0.5\<close>\<close>
  "detectIntent [] lowerMessage context = (''general'', 0.5)"
| "detectIntent ((intent, keywords) # rest) lowerMessage context =
     (let matches = filter (\<lambda>keyword. str_includes lowerMessage keyword) keywords
      in if length matches > 0 then
           (let conf = min 0.95 (0.6 + of_nat (length matches) * 0.1);
                contextSupport =
                  list_ex (\<lambda>ctx. list_ex (\<lambda>keyword. str_includes (toLowerCase ctx) keyword) keywords)
                    context;
                conf = (if length context > 0 \<and> contextSupport then conf + 0.1 else conf)
            in (intent, conf))
         else detectIntent rest lowerMessage context)"

definition analyzeIntent :: "string \<Rightarrow> string list \<Rightarrow> string \<times> rat" where
  \<comment> \<open>the fields \<open>intent\<close> and \<open>confidence\<close> of the result of \<open>analyzeIntent\<close>; the other
      fields (entities, sentiment, urgency) are computed after the loop and do not write them\<close>
  "analyzeIntent message context = detectIntent intents (toLowerCase message) context"

definition matchCount :: "string \<Rightarrow> string list \<Rightarrow> nat" where
  "matchCount lowerMessage keywords =
     length (filter (\<lambda>keyword. str_includes lowerMessage keyword) keywords)"

section \<open>The rules as the specification words them\<close>

text \<open>
  The discount rule of the specification: a base from the waste-percentage ladder, times
  the urgency multiplier, times the history factor, rounded and clamped.
\<close>

definition spec_baseDiscount :: "rat \<Rightarrow> rat" where
  "spec_baseDiscount w =
     (if w \<ge> 60 then 50 else if w \<ge> 40 then 35 else if w \<ge> 25 then 25
      else if w \<ge> 15 then 15 else 10)"

definition spec_urgencyMultiplier :: "rat \<Rightarrow> rat" where
  "spec_urgencyMultiplier h =
     (if h \<le> 6 then 1.4 else if h \<le> 12 then 1.2 else if h \<le> 24 then 1.1 else 1)"

definition spec_historyFactor :: "nat \<Rightarrow> rat" where
  "spec_historyFactor n = (if n \<ge> 5 then 1.1 else 1)"

definition spec_clamp :: "rat \<Rightarrow> rat \<Rightarrow> rat \<Rightarrow> rat" where
  "spec_clamp lo hi x = (if x < lo then lo else if x > hi then hi else x)"

definition spec_optimalDiscount :: "rat \<Rightarrow> rat \<Rightarrow> nat \<Rightarrow> rat" where
  "spec_optimalDiscount w h n =
     spec_clamp 5 70
       (Math_round (spec_baseDiscount w * spec_urgencyMultiplier h * spec_historyFactor n))"

text \<open>
  The waste rate of the specification: the quotient of the two sums times 100, and 0 for
  the empty subset. The quotient is JavaScript's: it is not a finite number when the
  divisor is 0.
\<close>

definition js_divide :: "rat \<Rightarrow> rat \<Rightarrow> rat option" where
  "js_divide a b = (if b = 0 then None else Some (a / b))"

definition spec_wasteRate :: "UserTrainingData list \<Rightarrow> rat option" where
  "spec_wasteRate matched =
     (if matched = [] then Some 0
      else map_option (\<lambda>q. q * 100)
             (js_divide (sum_list (map wasteAmount matched)) (sum_list (map initialStock matched))))"

definition doubled :: "UserTrainingData \<Rightarrow> UserTrainingData" where
  "doubled d = d\<lparr>initialStock := 2 * initialStock d, wasteAmount := 2 * wasteAmount d\<rparr>"

section \<open>Sample inputs\<close>

definition samplePattern :: historicalPattern where
  "samplePattern =
     \<lparr>wasteRate = 10, dataPoints = 1, avgDaysToWaste = 5,
      environmentalFactors = \<lparr>avgTemp = Some 20, avgHumidity = Some 50\<rparr>\<rparr>"

definition sampleConditions :: currentConditions where
  "sampleConditions = \<lparr>cond_temperature = 20, cond_humidity = 50\<rparr>"

definition sampleRecord :: UserTrainingData where
  "sampleRecord =
     \<lparr>productName = ''Milk'', category = ''Dairy'', purchaseDate = 0, expiryDate = 604800000,
      initialStock = 100, finalStock = 10, wasteAmount = 20, temperature = 20, humidity = 50,
      promotionActive = False, location = ''Aisle 3''\<rparr>"

definition sampleDraws :: draws where
  "sampleDraws =
     \<lparr>u_stock = 1 / 2, u_hours = 1 / 4, u_price = 1 / 3, u_temp = 1 / 2, u_humidity = 1 / 2,
      u_id = ''k3x9q2w7z''\<rparr>"

definition sampleRecommendation :: DiscountRecommendation where
  "sampleRecommendation =
     \<lparr>rec_id = ''r1'', rec_productName = ''Milk'', rec_category = ''Dairy'',
      currentStock = 60, hoursUntilExpiry = 24, predictedWasteAmount = 26,
      predictedWastePercentage = 44, suggestedDiscountPercentage = 39,
      estimatedRevenueSaved = 31.98, confidence = 70, riskLevel = High, reasoning = [],
      rec_location = ''Aisle 3'', currentPrice = 2.01, discountedPrice = 1.23,
      status = Pending, rec_timestamp = 17, basedOnDataPoints = 1, historicalWasteRate = 20\<rparr>"

definition sampleService :: DiscountRecommendationService where
  "sampleService =
     \<lparr>recommendations = [sampleRecommendation], decisions = [],
      trainedModelData = Some (ModelData 1 1), userTrainingData = [sampleRecord]\<rparr>"

definition zeroStockRecord :: UserTrainingData where
  \<comment> \<open>a record that passes \<open>validateData\<close>: nothing stocked, nothing wasted\<close>
  "zeroStockRecord = sampleRecord\<lparr>initialStock := 0, finalStock := 0, wasteAmount := 0\<rparr>"

definition mixedService :: DiscountRecommendationService where
  \<comment> \<open>one approved, one pending and one rejected recommendation\<close>
  "mixedService =
     sampleService\<lparr>recommendations :=
       [sampleRecommendation\<lparr>rec_id := ''r0'', status := Approved\<rparr>,
        sampleRecommendation,
        sampleRecommendation\<lparr>rec_id := ''r2'', status := Rejected\<rparr>]\<rparr>"

section \<open>Auxiliary facts\<close>

lemma foldl_add: "foldl (\<lambda>sum d. sum + f d) a xs = a + sum_list (map f xs)" for a :: rat
  by (induction xs arbitrary: a) (simp_all add: add.assoc)

lemma reduce_sum_sum_list: "reduce_sum f xs = sum_list (map f xs)"
  by (simp add: reduce_sum_def foldl_add)

lemma modifyFirst_length [simp]: "length (modifyFirst P f xs) = length xs"
  by (induction xs) simp_all

lemma modifyFirst_nth:
  "i < length xs \<Longrightarrow>
     modifyFirst P f xs ! i = xs ! i \<or> (P (xs ! i) \<and> modifyFirst P f xs ! i = f (xs ! i))"
proof (induction xs arbitrary: i)
  case Nil
  then show ?case by simp
next
  case (Cons x xs)
  then show ?case by (cases i) auto
qed

lemma modifyFirst_none: "\<forall>x\<in>set xs. \<not> P x \<Longrightarrow> modifyFirst P f xs = xs"
  by (induction xs) simp_all

lemma find_none: "\<forall>x\<in>set xs. \<not> P x \<Longrightarrow> find P xs = None"
  by (induction xs) simp_all

lemma earlier_shift:
  assumes "\<forall>j<Suc k. \<not> P ((x # xs) ! j)"
  shows "\<not> P x" and "\<forall>j<k. \<not> P (xs ! j)"
proof -
  from assms have "\<not> P ((x # xs) ! 0)" by blast
  then show "\<not> P x" by simp
  show "\<forall>j<k. \<not> P (xs ! j)"
  proof (intro allI impI)
    fix j assume "j < k"
    then have "Suc j < Suc k" by simp
    with assms have "\<not> P ((x # xs) ! Suc j)" by blast
    then show "\<not> P (xs ! j)" by simp
  qed
qed

lemma modifyFirst_first:
  "i < length xs \<Longrightarrow> P (xs ! i) \<Longrightarrow> \<forall>j<i. \<not> P (xs ! j) \<Longrightarrow>
     modifyFirst P f xs = xs[i := f (xs ! i)]"
proof (induction xs arbitrary: i)
  case Nil
  then show ?case by simp
next
  case (Cons x xs)
  show ?case
  proof (cases i)
    case 0
    with Cons.prems show ?thesis by simp
  next
    case (Suc k)
    with Cons.prems earlier_shift[of k P x xs]
    have "\<not> P x" and "\<forall>j<k. \<not> P (xs ! j)" by simp_all
    then show ?thesis using Cons.IH[of k] Cons.prems Suc by simp
  qed
qed

lemma find_first:
  "i < length xs \<Longrightarrow> P (xs ! i) \<Longrightarrow> \<forall>j<i. \<not> P (xs ! j) \<Longrightarrow> find P xs = Some (xs ! i)"
proof (induction xs arbitrary: i)
  case Nil
  then show ?case by simp
next
  case (Cons x xs)
  show ?case
  proof (cases i)
    case 0
    with Cons.prems show ?thesis by simp
  next
    case (Suc k)
    with Cons.prems earlier_shift[of k P x xs]
    have "\<not> P x" and "\<forall>j<k. \<not> P (xs ! j)" by simp_all
    then show ?thesis using Cons.IH[of k] Cons.prems Suc by simp
  qed
qed

section \<open>Discount selection\<close>

text \<open>
  C5. For every waste percentage and every number of hours until expiry, zero included,
  \<open>calculateOptimalDiscount\<close> is the base of the five-bucket ladder (closed below: 60 gives
  50, 15 gives 15) times the urgency multiplier, times 1.1 when the pattern has at least
  five data points, rounded to the nearest integer and clamped, and so lies within 5 and 70.
\<close>

theorem calculateOptimalDiscount_spec:
  "calculateOptimalDiscount w h hp = spec_optimalDiscount w h (dataPoints hp)
   \<and> 5 \<le> calculateOptimalDiscount w h hp \<and> calculateOptimalDiscount w h hp \<le> 70
   \<and> spec_baseDiscount 60 = 50 \<and> spec_baseDiscount 15 = 15"
proof -
  have r: "min 70 (max 5 x) = spec_clamp 5 70 x" for x :: rat
    by (simp add: spec_clamp_def min_def max_def)
  have e: "calculateOptimalDiscount w h hp = spec_optimalDiscount w h (dataPoints hp)"
    unfolding calculateOptimalDiscount_def spec_optimalDiscount_def r Let_def
      spec_baseDiscount_def spec_urgencyMultiplier_def spec_historyFactor_def
    by simp
  have b: "5 \<le> spec_clamp 5 70 x \<and> spec_clamp 5 70 x \<le> 70" for x
    by (simp add: spec_clamp_def)
  have l: "spec_baseDiscount 60 = 50 \<and> spec_baseDiscount 15 = 15"
    by (simp add: spec_baseDiscount_def)
  show ?thesis using e b l by (simp add: spec_optimalDiscount_def)
qed

theorem calculateOptimalDiscount_spec_witness:
  "calculateOptimalDiscount 0 0 samplePattern = spec_optimalDiscount 0 0 1
   \<and> calculateOptimalDiscount 0 0 samplePattern = 14
   \<and> calculateOptimalDiscount 60 25 samplePattern = 50
   \<and> calculateOptimalDiscount 15 25 samplePattern = 15"
proof -
  have "calculateOptimalDiscount 0 0 samplePattern = spec_optimalDiscount 0 0 (dataPoints samplePattern)"
    using calculateOptimalDiscount_spec[of 0 0 samplePattern] by simp
  moreover have "dataPoints samplePattern = 1"
    by (simp add: samplePattern_def)
  moreover have "calculateOptimalDiscount 0 0 samplePattern = 14"
    by code_simp
  moreover have "calculateOptimalDiscount 60 25 samplePattern = 50"
    by code_simp
  moreover have "calculateOptimalDiscount 15 25 samplePattern = 15"
    by code_simp
  ultimately show ?thesis by simp
qed

section \<open>Waste prediction\<close>

text \<open>
  C1. In \<open>calculatePredictedWaste\<close> the stock-level factor is 1.2 for a stock above 100 and
  1.1 for a stock above 50 otherwise. The source tests \<open>stock > 50\<close> first, so a stock of 200
  gets the factor 1.1: with a historical rate of 10, no expiry and no climate adjustment,
  the predicted percentage is 11 and the predicted amount 22, where the factor 1.2 would
  give 12 and 24; a stock of 60 gets the same percentage.
\<close>

theorem calculatePredictedWaste_stock_200:
  "calculatePredictedWaste 200 100 samplePattern sampleConditions
     = \<lparr>pred_wasteAmount = 22, pred_wastePercentage = 11, pred_confidence = 55\<rparr>
   \<and> pred_wastePercentage (calculatePredictedWaste 60 100 samplePattern sampleConditions) = 11
   \<and> wasteRate samplePattern * 1.1 = 11 \<and> wasteRate samplePattern * 1.2 = 12"
  by code_simp

section \<open>Historical waste rate\<close>

lemma patternOf_rate:
  "wasteRate (patternOf ds) =
     (if 0 < sum_list (map initialStock ds)
      then sum_list (map wasteAmount ds) / sum_list (map initialStock ds) * 100 else 0)"
  by (simp add: patternOf_def Let_def reduce_sum_sum_list)

lemma sum_doubled:
  "sum_list (map initialStock (map doubled ds)) = 2 * sum_list (map initialStock ds)"
  "sum_list (map wasteAmount (map doubled ds)) = 2 * sum_list (map wasteAmount ds)"
  by (induction ds) (simp_all add: doubled_def)

lemma filter_doubled:
  "(\<And>d. P (doubled d) = P d) \<Longrightarrow> filter P (map doubled ds) = map doubled (filter P ds)"
  by (induction ds) simp_all

lemma relevantData_doubled:
  "relevantData (map doubled td) p c = map doubled (relevantData td p c)"
  by (simp add: relevantData_def Let_def filter_doubled doubled_def)

lemma rate_doubled: "wasteRate (patternOf (map doubled ds)) = wasteRate (patternOf ds)"
  unfolding patternOf_rate sum_doubled by simp

lemma calculateWasteRate_rate:
  "calculateWasteRate td pn cat =
     wasteRate (patternOf
       (if given pn then getProductData td (case pn of Some n \<Rightarrow> n | None \<Rightarrow> [])
        else if given cat then getCategoryData td (case cat of Some c \<Rightarrow> c | None \<Rightarrow> [])
        else td))"
  by (simp add: calculateWasteRate_def patternOf_def Let_def)

text \<open>
  C7, as amended. The historical waste rate over the matched subset is the sum of the
  waste amounts over the sum of the initial stocks, times 100, when the sum of the initial
  stocks is positive, and 0 otherwise, so in particular for the empty subset. Doubling
  every record's initial stock and waste amount leaves the rate unchanged, in the
  recommendation service and in the training service.
\<close>

theorem wasteRate_guarded_scale_invariant:
  "wasteRate (analyzeHistoricalWastePattern td p c) =
     (if 0 < sum_list (map initialStock (relevantData td p c))
      then sum_list (map wasteAmount (relevantData td p c))
             / sum_list (map initialStock (relevantData td p c)) * 100
      else 0)
   \<and> (relevantData td p c = [] \<longrightarrow> wasteRate (analyzeHistoricalWastePattern td p c) = 0)
   \<and> wasteRate (analyzeHistoricalWastePattern (map doubled td) p c)
       = wasteRate (analyzeHistoricalWastePattern td p c)
   \<and> calculateWasteRate (map doubled td) pn cat = calculateWasteRate td pn cat"
proof -
  have a: "wasteRate (analyzeHistoricalWastePattern td p c) =
     (if 0 < sum_list (map initialStock (relevantData td p c))
      then sum_list (map wasteAmount (relevantData td p c))
             / sum_list (map initialStock (relevantData td p c)) * 100
      else 0)"
    by (simp add: analyzeHistoricalWastePattern_def patternOf_rate)
  have b: "relevantData td p c = [] \<longrightarrow> wasteRate (analyzeHistoricalWastePattern td p c) = 0"
    by (simp add: a)
  have d: "wasteRate (analyzeHistoricalWastePattern (map doubled td) p c)
       = wasteRate (analyzeHistoricalWastePattern td p c)"
    by (simp add: analyzeHistoricalWastePattern_def relevantData_doubled rate_doubled)
  have g: "getProductData (map doubled td) n = map doubled (getProductData td n)" for n
    by (simp add: getProductData_def filter_doubled doubled_def)
  have h: "getCategoryData (map doubled td) n = map doubled (getCategoryData td n)" for n
    by (simp add: getCategoryData_def filter_doubled doubled_def)
  have e: "calculateWasteRate (map doubled td) pn cat = calculateWasteRate td pn cat"
    unfolding calculateWasteRate_rate g h by (simp add: rate_doubled)
  show ?thesis using a b d e by blast
qed

theorem wasteRate_guarded_scale_invariant_witness:
  "wasteRate (analyzeHistoricalWastePattern [sampleRecord] ''milk'' ''Dairy'') = 20
   \<and> wasteRate (analyzeHistoricalWastePattern (map doubled [sampleRecord]) ''milk'' ''Dairy'') = 20
   \<and> relevantData [sampleRecord] ''Bread'' ''Bakery'' = []
   \<and> wasteRate (analyzeHistoricalWastePattern [sampleRecord] ''Bread'' ''Bakery'') = 0
   \<and> calculateWasteRate (map doubled [sampleRecord]) None None = 20"
proof -
  have r: "relevantData [sampleRecord] ''milk'' ''Dairy'' = [sampleRecord]"
    by code_simp
  have e: "relevantData [sampleRecord] ''Bread'' ''Bakery'' = []"
    by code_simp
  have c: "calculateWasteRate [sampleRecord] None None = 20"
    by code_simp
  have "wasteRate (analyzeHistoricalWastePattern [sampleRecord] ''milk'' ''Dairy'') = 20"
    using wasteRate_guarded_scale_invariant[of "[sampleRecord]" "''milk''" "''Dairy''" None None]
    unfolding r by (simp add: sampleRecord_def)
  moreover have "wasteRate (analyzeHistoricalWastePattern (map doubled [sampleRecord]) ''milk'' ''Dairy'')
      = wasteRate (analyzeHistoricalWastePattern [sampleRecord] ''milk'' ''Dairy'')"
    using wasteRate_guarded_scale_invariant[of "[sampleRecord]" "''milk''" "''Dairy''" None None]
    by blast
  moreover have "wasteRate (analyzeHistoricalWastePattern [sampleRecord] ''Bread'' ''Bakery'') = 0"
    using wasteRate_guarded_scale_invariant[of "[sampleRecord]" "''Bread''" "''Bakery''" None None] e
    by blast
  moreover have "calculateWasteRate (map doubled [sampleRecord]) None None = 20"
    using wasteRate_guarded_scale_invariant[of "[sampleRecord]" "''milk''" "''Dairy''" None None] c
    by simp
  ultimately show ?thesis using e by simp
qed

text \<open>
  The claim as first stated gives the quotient formula for every non-empty subset. A
  subset whose initial stocks sum to 0 has no such quotient, and the source returns 0.
\<close>

theorem wasteRate_zero_stock_counterexample:
  "relevantData [zeroStockRecord] ''Milk'' ''Dairy'' = [zeroStockRecord]
   \<and> wasteRate (analyzeHistoricalWastePattern [zeroStockRecord] ''Milk'' ''Dairy'') = 0
   \<and> spec_wasteRate [zeroStockRecord] = None
   \<and> spec_wasteRate [zeroStockRecord]
       \<noteq> Some (wasteRate (analyzeHistoricalWastePattern [zeroStockRecord] ''Milk'' ''Dairy''))"
  by code_simp

section \<open>Generation: precondition and frame\<close>

text \<open>
  C4. When the trained-model marker is absent or the training record set is empty,
  \<open>generateRecommendationsFromTrainingData\<close> throws the error with the fixed message, and
  the service is as it was before the call: the stored recommendations, pending ones
  included, and the decisions are untouched.
\<close>

theorem generate_invalid_state:
  assumes "trainedModelData s = None \<or> userTrainingData s = []"
  shows "generateRecommendationsFromTrainingData now rnd s
           = (Inl (Error ''No trained model data available. Please train the model first.''), s)"
  using assms by (auto simp add: generateRecommendationsFromTrainingData_def)

theorem generate_invalid_state_witness:
  "userTrainingData (sampleService\<lparr>userTrainingData := []\<rparr>) = []
   \<and> generateRecommendationsFromTrainingData 17 (\<lambda>i. sampleDraws) (sampleService\<lparr>userTrainingData := []\<rparr>)
       = (Inl (Error ''No trained model data available. Please train the model first.''),
          sampleService\<lparr>userTrainingData := []\<rparr>)
   \<and> recommendations (sampleService\<lparr>userTrainingData := []\<rparr>) = [sampleRecommendation]
   \<and> status sampleRecommendation = Pending"
proof -
  have h: "userTrainingData (sampleService\<lparr>userTrainingData := []\<rparr>) = []"
    by simp
  then have "trainedModelData (sampleService\<lparr>userTrainingData := []\<rparr>) = None
      \<or> userTrainingData (sampleService\<lparr>userTrainingData := []\<rparr>) = []"
    by simp
  from generate_invalid_state[OF this, of 17 "\<lambda>i. sampleDraws"] h
  show ?thesis by (simp add: sampleService_def sampleRecommendation_def)
qed

lemma recommendationFor_pending:
  "recommendationFor td now u p = Some r \<Longrightarrow> status r = Pending"
  by (auto simp add: recommendationFor_def Let_def split: option.splits if_splits)

lemma forEachProduct_pending:
  "r \<in> set (forEachProduct td now rnd i ps) \<Longrightarrow> status r = Pending"
proof (induction ps arbitrary: i)
  case Nil
  then show ?case by simp
next
  case (Cons p ps)
  then show ?case
    by (auto split: option.splits dest: recommendationFor_pending)
qed

text \<open>
  C8. A successful call to \<open>generateRecommendationsFromTrainingData\<close> (the marker is
  present and the training set is not empty) removes exactly the pending recommendations
  from the stored list and appends the new batch; every recommendation that is not
  pending, so every approved or rejected one, is retained unchanged and in order. The new
  batch is all pending, and the decisions are untouched.
\<close>

theorem generate_replaces_pending:
  assumes "trainedModelData s \<noteq> None" and "userTrainingData s \<noteq> []"
  shows "\<exists>batch s'. generateRecommendationsFromTrainingData now rnd s = (Inr batch, s')
      \<and> recommendations s' = filter (\<lambda>r. status r \<noteq> Pending) (recommendations s) @ batch
      \<and> (\<forall>r\<in>set batch. status r = Pending)
      \<and> filter (\<lambda>r. status r \<noteq> Pending) (recommendations s')
          = filter (\<lambda>r. status r \<noteq> Pending) (recommendations s)
      \<and> getPendingRecommendations s' = batch
      \<and> decisions s' = decisions s"
proof -
  let ?batch = "sort_key (\<lambda>r. - urgency r)
      (forEachProduct (userTrainingData s) now rnd 0 (uniqueProducts (userTrainingData s)))"
  let ?kept = "filter (\<lambda>r. status r \<noteq> Pending) (recommendations s)"
  let ?s' = "s\<lparr>recommendations := ?kept @ ?batch\<rparr>"
  have g: "generateRecommendationsFromTrainingData now rnd s = (Inr ?batch, ?s')"
    using assms by (simp add: generateRecommendationsFromTrainingData_def Let_def)
  have p: "\<forall>r\<in>set ?batch. status r = Pending"
    using forEachProduct_pending by auto
  then have f1: "filter (\<lambda>r. status r \<noteq> Pending) ?batch = []"
    and f2: "filter (\<lambda>r. status r = Pending) ?batch = ?batch"
    by (simp_all add: filter_empty_conv filter_id_conv)
  have f3: "filter (\<lambda>r. status r = Pending) ?kept = []"
    by (simp add: filter_empty_conv)
  have "generateRecommendationsFromTrainingData now rnd s = (Inr ?batch, ?s')
      \<and> recommendations ?s' = ?kept @ ?batch
      \<and> (\<forall>r\<in>set ?batch. status r = Pending)
      \<and> filter (\<lambda>r. status r \<noteq> Pending) (recommendations ?s') = ?kept
      \<and> getPendingRecommendations ?s' = ?batch
      \<and> decisions ?s' = decisions s"
    using g p f1 f2 f3 by (simp add: getPendingRecommendations_def)
  then show ?thesis by blast
qed

theorem generate_replaces_pending_witness:
  "trainedModelData mixedService \<noteq> None \<and> userTrainingData mixedService \<noteq> []
   \<and> (\<exists>batch s'. generateRecommendationsFromTrainingData 17 (\<lambda>i. sampleDraws) mixedService
          = (Inr batch, s')
        \<and> recommendations s'
            = filter (\<lambda>r. status r \<noteq> Pending) (recommendations mixedService) @ batch
        \<and> getPendingRecommendations s' = batch)
   \<and> map (\<lambda>r. (rec_id r, status r)) (recommendations mixedService)
       = [(''r0'', Approved), (''r1'', Pending), (''r2'', Rejected)]
   \<and> map (\<lambda>r. (rec_id r, status r))
        (recommendations (snd (generateRecommendationsFromTrainingData 17 (\<lambda>i. sampleDraws) mixedService)))
       = [(''r0'', Approved), (''r2'', Rejected), (''rec_17_k3x9q2w7z'', Pending)]"
proof -
  have h1: "trainedModelData mixedService \<noteq> None"
    by (simp add: mixedService_def sampleService_def)
  have h2: "userTrainingData mixedService \<noteq> []"
    by (simp add: mixedService_def sampleService_def)
  have e1: "map (\<lambda>r. (rec_id r, status r)) (recommendations mixedService)
       = [(''r0'', Approved), (''r1'', Pending), (''r2'', Rejected)]"
    by code_simp
  have e2: "map (\<lambda>r. (rec_id r, status r))
        (recommendations (snd (generateRecommendationsFromTrainingData 17 (\<lambda>i. sampleDraws) mixedService)))
       = [(''r0'', Approved), (''r2'', Rejected), (''rec_17_k3x9q2w7z'', Pending)]"
    by code_simp
  from generate_replaces_pending[OF h1 h2, of 17 "\<lambda>i. sampleDraws"]
  have "\<exists>batch s'. generateRecommendationsFromTrainingData 17 (\<lambda>i. sampleDraws) mixedService
          = (Inr batch, s')
        \<and> recommendations s'
            = filter (\<lambda>r. status r \<noteq> Pending) (recommendations mixedService) @ batch
        \<and> getPendingRecommendations s' = batch"
    by blast
  with h1 h2 e1 e2 show ?thesis by blast
qed

section \<open>The decision workflow: approve and reject\<close>

lemma approveUpdate_id [simp]: "rec_id (approveUpdate d r) = rec_id r"
  by (simp add: approveUpdate_def Let_def split: option.splits)

lemma approveUpdate_status [simp]: "status (approveUpdate d r) = Approved"
  by (simp add: approveUpdate_def Let_def split: option.splits)

lemma perform_length [simp]:
  "length (recommendations (perform c s)) = length (recommendations s)"
  by (cases c) (simp_all add: approveRecommendation_def rejectRecommendation_def Let_def)

lemma perform_nth:
  assumes "i < length (recommendations s)"
  shows "recommendations (perform c s) ! i = recommendations s ! i
       \<or> (call_id c = rec_id (recommendations s ! i)
          \<and> rec_id (recommendations (perform c s) ! i) = rec_id (recommendations s ! i)
          \<and> (status (recommendations (perform c s) ! i) = Approved
             \<or> status (recommendations (perform c s) ! i) = Rejected))"
proof (cases c)
  case (Approve rid d n t)
  then show ?thesis
    using modifyFirst_nth[OF assms, of "\<lambda>r. rec_id r = rid" "approveUpdate d"]
    by (auto simp add: approveRecommendation_def Let_def)
next
  case (Reject rid n t)
  then show ?thesis
    using modifyFirst_nth[OF assms, of "\<lambda>r. rec_id r = rid" "\<lambda>r. r\<lparr>status := Rejected\<rparr>"]
    by (auto simp add: rejectRecommendation_def Let_def)
qed

lemma performAll_length [simp]:
  "length (recommendations (performAll cs s)) = length (recommendations s)"
  by (induction cs arbitrary: s) simp_all

lemma performAll_nth:
  assumes "i < length (recommendations s)"
  shows "(status (recommendations (performAll cs s) ! i) = status (recommendations s ! i)
          \<or> status (recommendations (performAll cs s) ! i) = Approved
          \<or> status (recommendations (performAll cs s) ! i) = Rejected)
       \<and> ((\<forall>c\<in>set cs. call_id c \<noteq> rec_id (recommendations s ! i))
            \<longrightarrow> recommendations (performAll cs s) ! i = recommendations s ! i)"
  using assms
proof (induction cs arbitrary: s)
  case Nil
  then show ?case by simp
next
  case (Cons c cs)
  let ?s1 = "perform c s"
  have i1: "i < length (recommendations ?s1)" using Cons.prems by simp
  note ih = Cons.IH[OF i1]
  note st = perform_nth[OF Cons.prems, of c]
  show ?case
  proof (intro conjI impI)
    show "status (recommendations (performAll (c # cs) s) ! i) = status (recommendations s ! i)
          \<or> status (recommendations (performAll (c # cs) s) ! i) = Approved
          \<or> status (recommendations (performAll (c # cs) s) ! i) = Rejected"
      using ih st by auto
  next
    assume a: "\<forall>c\<in>set (c # cs). call_id c \<noteq> rec_id (recommendations s ! i)"
    then have "recommendations ?s1 ! i = recommendations s ! i" using st by auto
    then show "recommendations (performAll (c # cs) s) ! i = recommendations s ! i"
      using ih a by auto
  qed
qed

lemma decision_overwrites:
  assumes "i < length (recommendations s)"
      and "\<forall>j<i. rec_id (recommendations s ! j) \<noteq> rec_id (recommendations s ! i)"
  shows "status (recommendations
            (approveRecommendation (rec_id (recommendations s ! i)) d notes now s) ! i) = Approved
       \<and> status (recommendations
            (rejectRecommendation (rec_id (recommendations s ! i)) notes now s) ! i) = Rejected"
proof -
  let ?recs = "recommendations s"
  let ?P = "\<lambda>r. rec_id r = rec_id (?recs ! i)"
  have m: "modifyFirst ?P f ?recs = ?recs[i := f (?recs ! i)]" for f
    using modifyFirst_first[of i ?recs ?P f] assms by simp
  show ?thesis
    using assms(1) by (simp add: approveRecommendation_def rejectRecommendation_def Let_def m)
qed

text \<open>
  C2, as amended. Over any run of \<open>approveRecommendation\<close> and \<open>rejectRecommendation\<close>
  calls, the status of a stored recommendation either stays what it was or becomes
  approved or rejected; so a recommendation that is approved or rejected stays approved or
  rejected and never returns to pending. A run in which no call carries the
  recommendation's id leaves the recommendation unchanged. The list keeps its length.
  The decided states are not terminal: on the first stored recommendation with its id, an
  approve call with that id sets the status to approved and a reject call with that id
  sets it to rejected, whatever the status was.
\<close>

theorem decided_stays_decided:
  assumes "i < length (recommendations s)"
  shows "length (recommendations (performAll cs s)) = length (recommendations s)
       \<and> (status (recommendations (performAll cs s) ! i) = status (recommendations s ! i)
          \<or> status (recommendations (performAll cs s) ! i) = Approved
          \<or> status (recommendations (performAll cs s) ! i) = Rejected)
       \<and> (status (recommendations s ! i) = Approved \<or> status (recommendations s ! i) = Rejected
            \<longrightarrow> status (recommendations (performAll cs s) ! i) = Approved
              \<or> status (recommendations (performAll cs s) ! i) = Rejected)
       \<and> ((\<forall>c\<in>set cs. call_id c \<noteq> rec_id (recommendations s ! i))
            \<longrightarrow> recommendations (performAll cs s) ! i = recommendations s ! i)
       \<and> ((\<forall>j<i. rec_id (recommendations s ! j) \<noteq> rec_id (recommendations s ! i))
            \<longrightarrow> status (recommendations
                    (approveRecommendation (rec_id (recommendations s ! i)) d notes now s) ! i)
                  = Approved
              \<and> status (recommendations
                    (rejectRecommendation (rec_id (recommendations s ! i)) notes now s) ! i)
                  = Rejected)"
  using performAll_nth[OF assms, of cs] decision_overwrites[OF assms, of d "notes" now] by auto

theorem decided_stays_decided_witness:
  "status (recommendations mixedService ! 0) = Approved
   \<and> map call_id [Approve ''r1'' (Some 40) None 18, Reject ''r2'' None 19] = [''r1'', ''r2'']
   \<and> rec_id (recommendations mixedService ! 0) = ''r0''
   \<and> recommendations
        (performAll [Approve ''r1'' (Some 40) None 18, Reject ''r2'' None 19] mixedService) ! 0
       = recommendations mixedService ! 0
   \<and> status (recommendations
        (performAll [Approve ''r1'' (Some 40) None 18, Reject ''r2'' None 19] mixedService) ! 0)
       = Approved
   \<and> map rec_id (recommendations mixedService) = [''r0'', ''r1'', ''r2'']
   \<and> status (recommendations mixedService ! 2) = Rejected
   \<and> status (recommendations (approveRecommendation ''r2'' None None 20 mixedService) ! 2)
       = Approved
   \<and> status (recommendations (rejectRecommendation ''r2'' None 20 mixedService) ! 2)
       = Rejected"
proof -
  let ?cs = "[Approve ''r1'' (Some 40) None 18, Reject ''r2'' None 19]"
  have h: "(0::nat) < length (recommendations mixedService)"
    by (simp add: mixedService_def)
  have a: "status (recommendations mixedService ! 0) = Approved"
    by (simp add: mixedService_def)
  have i: "rec_id (recommendations mixedService ! 0) = ''r0''"
    by (simp add: mixedService_def)
  have n: "\<forall>c\<in>set ?cs. call_id c \<noteq> rec_id (recommendations mixedService ! 0)"
    by (simp add: i)
  from decided_stays_decided[OF h, of ?cs] n
  have k: "recommendations (performAll ?cs mixedService) ! 0 = recommendations mixedService ! 0"
    by blast
  have h2: "(2::nat) < length (recommendations mixedService)"
    by (simp add: mixedService_def)
  have i2: "rec_id (recommendations mixedService ! 2) = ''r2''"
    by (simp add: mixedService_def)
  have f2: "\<forall>j<2. rec_id (recommendations mixedService ! j)
               \<noteq> rec_id (recommendations mixedService ! 2)"
    by (simp add: mixedService_def sampleRecommendation_def less_Suc_eq numeral_2_eq_2)
  have s2: "status (recommendations mixedService ! 2) = Rejected"
    by (simp add: mixedService_def)
  have ids: "map rec_id (recommendations mixedService) = [''r0'', ''r1'', ''r2'']"
    by (simp add: mixedService_def sampleRecommendation_def)
  from decided_stays_decided[OF h2, of "[]" None None 20] f2
  have "status (recommendations
            (approveRecommendation (rec_id (recommendations mixedService ! 2)) None None 20
               mixedService) ! 2) = Approved
      \<and> status (recommendations
            (rejectRecommendation (rec_id (recommendations mixedService ! 2)) None 20
               mixedService) ! 2) = Rejected"
    by blast
  then have o: "status (recommendations (approveRecommendation ''r2'' None None 20 mixedService) ! 2)
        = Approved
      \<and> status (recommendations (rejectRecommendation ''r2'' None 20 mixedService) ! 2)
        = Rejected"
    unfolding i2 .
  from a i k s2 ids o show ?thesis by simp
qed

text \<open>
  The claim as first stated makes the decided states terminal. They are not: the sample
  recommendation is pending, an approve call makes it approved, and a reject call on the
  same id then makes it rejected. In the other order, a reject call makes it rejected and
  an approve call on the same id then makes it approved.
\<close>

theorem approve_then_reject_counterexample:
  "map status (recommendations sampleService) = [Pending]
   \<and> map status (recommendations (performAll [Approve ''r1'' None None 18] sampleService))
       = [Approved]
   \<and> map status
        (recommendations
          (performAll [Approve ''r1'' None None 18, Reject ''r1'' None 19] sampleService))
       = [Rejected]
   \<and> map status (recommendations (performAll [Reject ''r1'' None 18] sampleService))
       = [Rejected]
   \<and> map status
        (recommendations
          (performAll [Reject ''r1'' None 18, Approve ''r1'' None None 19] sampleService))
       = [Approved]"
  by code_simp

text \<open>
  C3. For a pending recommendation, \<open>approveRecommendation(id, 40)\<close> sets the discounted
  price to the current price times 0.6 rounded to two decimals and the status to approved;
  a second approve call leaves the status approved and appends a second decision. On the
  sample recommendation, whose current price is 2.01, the source stores 1.206, not 1.21:
  the approve path does not round. The status and the two decisions are as claimed.
\<close>

theorem approve_40_unrounded_price:
  "map status (recommendations sampleService) = [Pending]
   \<and> map currentPrice (recommendations sampleService) = [2.01]
   \<and> map discountedPrice
        (recommendations (approveRecommendation ''r1'' (Some 40) None 18 sampleService))
       = [1.206]
   \<and> Math_round (2.01 * 0.6 * 100) / 100 = 1.21
   \<and> map status (recommendations (approveRecommendation ''r1'' (Some 40) None 18 sampleService))
       = [Approved]
   \<and> map status
        (recommendations
          (approveRecommendation ''r1'' (Some 40) None 19
            (approveRecommendation ''r1'' (Some 40) None 18 sampleService)))
       = [Approved]
   \<and> map recommendationId
        (decisions
          (approveRecommendation ''r1'' (Some 40) None 19
            (approveRecommendation ''r1'' (Some 40) None 18 sampleService)))
       = [''r1'', ''r1'']"
  by code_simp

text \<open>
  C9. For an id that matches no stored recommendation, \<open>approveRecommendation\<close> and
  \<open>rejectRecommendation\<close> leave the recommendations list unchanged and append one decision
  record; the approve record's \<open>actualDiscountApplied\<close> is the override when one is given
  (and not zero) and undefined otherwise.
\<close>

theorem unknown_id_still_recorded:
  assumes "\<forall>r\<in>set (recommendations s). rec_id r \<noteq> rid"
  shows "recommendations (approveRecommendation rid d notes now s) = recommendations s
     \<and> decisions (approveRecommendation rid d notes now s)
         = decisions s @ [\<lparr>recommendationId = rid, decision = DecisionApproved,
                actualDiscountApplied = (if truthy d then d else None),
                ownerNotes = notes, dec_timestamp = now\<rparr>]
     \<and> recommendations (rejectRecommendation rid notes now s) = recommendations s
     \<and> decisions (rejectRecommendation rid notes now s)
         = decisions s @ [\<lparr>recommendationId = rid, decision = DecisionRejected,
                actualDiscountApplied = None, ownerNotes = notes, dec_timestamp = now\<rparr>]"
proof -
  have m: "modifyFirst (\<lambda>r. rec_id r = rid) f (recommendations s) = recommendations s" for f
    using assms by (intro modifyFirst_none) simp
  have f: "find (\<lambda>r. rec_id r = rid) (recommendations s) = None"
    using assms by (intro find_none) simp
  show ?thesis
    by (simp add: approveRecommendation_def rejectRecommendation_def Let_def m f or_else_def)
qed

theorem unknown_id_still_recorded_witness:
  "map rec_id (recommendations sampleService) = [''r1'']
   \<and> recommendations (approveRecommendation ''nope'' None None 18 sampleService)
       = recommendations sampleService
   \<and> decisions (approveRecommendation ''nope'' None None 18 sampleService)
       = [\<lparr>recommendationId = ''nope'', decision = DecisionApproved,
           actualDiscountApplied = None, ownerNotes = None, dec_timestamp = 18\<rparr>]
   \<and> recommendations (rejectRecommendation ''nope'' None 18 sampleService)
       = recommendations sampleService
   \<and> decisions (rejectRecommendation ''nope'' None 18 sampleService)
       = [\<lparr>recommendationId = ''nope'', decision = DecisionRejected,
           actualDiscountApplied = None, ownerNotes = None, dec_timestamp = 18\<rparr>]"
proof -
  have h: "\<forall>r\<in>set (recommendations sampleService). rec_id r \<noteq> ''nope''"
    by (simp add: sampleService_def sampleRecommendation_def)
  have d: "decisions sampleService = []"
    by (simp add: sampleService_def)
  have i: "map rec_id (recommendations sampleService) = [''r1'']"
    by (simp add: sampleService_def sampleRecommendation_def)
  from unknown_id_still_recorded[OF h, of None None 18] i d show ?thesis
    by (simp add: truthy_def)
qed

text \<open>
  C10. For a stored recommendation \<open>r\<close>, the first with its id, \<open>approveRecommendation(r.id, 0)\<close>
  behaves as the call with no override: the status of \<open>r\<close> becomes approved, its suggested
  discount, discounted price and estimated revenue saved are left as they were, and the
  appended decision's \<open>actualDiscountApplied\<close> is the suggested discount of \<open>r\<close>, not 0.
\<close>

theorem approve_zero_override_swallowed:
  assumes "i < length (recommendations s)" and "rec_id (recommendations s ! i) = rid"
      and "\<forall>j<i. rec_id (recommendations s ! j) \<noteq> rid"
  shows "approveRecommendation rid (Some 0) notes now s = approveRecommendation rid None notes now s
     \<and> recommendations (approveRecommendation rid (Some 0) notes now s)
         = (recommendations s)[i := (recommendations s ! i)\<lparr>status := Approved\<rparr>]
     \<and> decisions (approveRecommendation rid (Some 0) notes now s)
         = decisions s @ [\<lparr>recommendationId = rid, decision = DecisionApproved,
                actualDiscountApplied = Some (suggestedDiscountPercentage (recommendations s ! i)),
                ownerNotes = notes, dec_timestamp = now\<rparr>]"
proof -
  let ?P = "\<lambda>r. rec_id r = rid"
  let ?recs = "recommendations s"
  let ?r' = "(?recs ! i)\<lparr>status := Approved\<rparr>"
  have u: "approveUpdate (Some 0) = approveUpdate None"
    by (rule ext) (simp add: approveUpdate_def)
  have un: "approveUpdate None r = r\<lparr>status := Approved\<rparr>" for r
    by (simp add: approveUpdate_def)
  have m: "modifyFirst ?P (approveUpdate None) ?recs = ?recs[i := ?r']"
    using modifyFirst_first[of i ?recs ?P "approveUpdate None"] assms by (simp add: un)
  have f: "find ?P (?recs[i := ?r']) = Some ?r'"
    using find_first[of i "?recs[i := ?r']" ?P] assms by simp
  show ?thesis
    by (simp add: approveRecommendation_def Let_def u m f or_else_def truthy_def)
qed

theorem approve_zero_override_swallowed_witness:
  "map rec_id (recommendations mixedService) = [''r0'', ''r1'', ''r2'']
   \<and> recommendations mixedService ! 1 = sampleRecommendation
   \<and> status (recommendations mixedService ! 1) = Pending
   \<and> recommendations (approveRecommendation ''r1'' (Some 0) None 18 mixedService)
       = (recommendations mixedService)[1 := sampleRecommendation\<lparr>status := Approved\<rparr>]
   \<and> decisions (approveRecommendation ''r1'' (Some 0) None 18 mixedService)
       = [\<lparr>recommendationId = ''r1'', decision = DecisionApproved,
           actualDiscountApplied = Some 39, ownerNotes = None, dec_timestamp = 18\<rparr>]"
proof -
  have h1: "(1::nat) < length (recommendations mixedService)"
    by (simp add: mixedService_def)
  have h2: "rec_id (recommendations mixedService ! 1) = ''r1''"
    by (simp add: mixedService_def sampleRecommendation_def)
  have h3: "\<forall>j<1. rec_id (recommendations mixedService ! j) \<noteq> ''r1''"
    by (simp add: mixedService_def)
  have r: "recommendations mixedService ! 1 = sampleRecommendation"
    by (simp add: mixedService_def)
  have p: "status sampleRecommendation = Pending"
      and q: "suggestedDiscountPercentage sampleRecommendation = 39"
    by (simp_all add: sampleRecommendation_def)
  have d: "decisions mixedService = []"
    by (simp add: mixedService_def sampleService_def)
  note t = approve_zero_override_swallowed[OF h1 h2 h3, of None 18]
  from t have a: "recommendations (approveRecommendation ''r1'' (Some 0) None 18 mixedService)
       = (recommendations mixedService)[1 := (recommendations mixedService ! 1)\<lparr>status := Approved\<rparr>]"
    by blast
  from t have b: "decisions (approveRecommendation ''r1'' (Some 0) None 18 mixedService)
       = decisions mixedService @ [\<lparr>recommendationId = ''r1'', decision = DecisionApproved,
           actualDiscountApplied = Some (suggestedDiscountPercentage (recommendations mixedService ! 1)),
           ownerNotes = None, dec_timestamp = 18\<rparr>]"
    by blast
  have i: "map rec_id (recommendations mixedService) = [''r0'', ''r1'', ''r2'']"
    by (simp add: mixedService_def sampleRecommendation_def)
  from a b i r p q d show ?thesis by simp
qed

section \<open>Intent classification\<close>

lemma detectIntent_skip:
  "\<forall>e\<in>set before. matchCount msg (snd e) = 0 \<Longrightarrow>
     detectIntent (before @ rest) msg ctx = detectIntent rest msg ctx"
proof (induction before)
  case Nil
  then show ?case by simp
next
  case (Cons e before)
  obtain i ks where e: "e = (i, ks)" by (cases e)
  with Cons.prems have "length (filter (\<lambda>keyword. str_includes msg keyword) ks) = 0"
    by (simp add: matchCount_def)
  with Cons e show ?case by simp
qed

lemma detectIntent_hit:
  "0 < matchCount msg keywords \<Longrightarrow>
     fst (detectIntent ((intent, keywords) # rest) msg ctx) = intent"
  by (simp add: matchCount_def Let_def)

text \<open>
  C6. Intent classification is first match wins in the declaration order of the intent
  table: the utterance is lower-cased, and the intent returned is the first one of the table
  with at least one keyword occurring in it as a substring, whatever the later intents
  match and however many keywords they match.
\<close>

theorem first_matching_intent_wins:
  assumes "intents = before @ (intent, keywords) # after"
      and "\<forall>e\<in>set before. matchCount (toLowerCase message) (snd e) = 0"
      and "0 < matchCount (toLowerCase message) keywords"
  shows "fst (analyzeIntent message ctx) = intent"
  unfolding analyzeIntent_def assms(1)
  using detectIntent_skip[OF assms(2)] detectIntent_hit[OF assms(3)] by simp

theorem first_matching_intent_wins_witness:
  "fst (analyzeIntent ''Cheap, but recommend the BEST popular one'' []) = ''price_inquiry''
   \<and> fst (intents ! 1) = ''price_inquiry'' \<and> fst (intents ! 3) = ''recommendation''
   \<and> matchCount (toLowerCase ''Cheap, but recommend the BEST popular one'') (snd (intents ! 1)) = 1
   \<and> matchCount (toLowerCase ''Cheap, but recommend the BEST popular one'') (snd (intents ! 3)) = 3"
proof -
  let ?m = "''Cheap, but recommend the BEST popular one''"
  have d: "intents = take 1 intents @ (''price_inquiry'', snd (intents ! 1)) # drop 2 intents"
    by code_simp
  have b: "\<forall>e\<in>set (take 1 intents). matchCount (toLowerCase ?m) (snd e) = 0"
    by code_simp
  have h: "0 < matchCount (toLowerCase ?m) (snd (intents ! 1))"
    by code_simp
  have "fst (analyzeIntent ?m []) = ''price_inquiry''"
    using first_matching_intent_wins[OF d b h] .
  moreover have "fst (intents ! 1) = ''price_inquiry'' \<and> fst (intents ! 3) = ''recommendation''"
    by code_simp
  moreover have "matchCount (toLowerCase ?m) (snd (intents ! 1)) = 1" by code_simp
  moreover have "matchCount (toLowerCase ?m) (snd (intents ! 3)) = 3" by code_simp
  ultimately show ?thesis by simp
qed

end
